theory Spec2Isabelle
  imports Complex_Main "HOL-Library.Multiset"
begin

section \<open>Country cache service: the controller and its store\<close>

text \<open>
  A shallow embedding of \<^verbatim>\<open>countryController.js\<close> and of the two tables that
  \<^verbatim>\<open>db.js\<close> creates. JavaScript numbers are read as exact reals (no rounding, no NaN),
  \<^verbatim>\<open>null\<close> and \<^verbatim>\<open>undefined\<close> as \<open>None\<close>, and the JSON the two gateways
  return is typed the way the controller reads it. The SQL engine is not part of the
  repository: each statement the controller sends is modelled by a function on the
  table it touches, with the unique key on \<^verbatim>\<open>name\<close> and the
  \<^verbatim>\<open>LOWER(name) = LOWER(?)\<close> comparison both read as equality up to ASCII letter
  case, and with \<^verbatim>\<open>NULL\<close> ordered below every number, as MySQL orders it. A
  column keeps the value it is given: the rounding of \<^verbatim>\<open>DECIMAL\<close> columns to their
  scale and the length limits of \<^verbatim>\<open>VARCHAR\<close> columns are not modelled.
\<close>

subsection \<open>Strings\<close>

text \<open>Case mapping covers the ASCII letters; every other character is left as it is.\<close>

definition toUpperCase_char :: "char \<Rightarrow> char" where
  "toUpperCase_char c =
     (case map_of (zip ''abcdefghijklmnopqrstuvwxyz'' ''ABCDEFGHIJKLMNOPQRSTUVWXYZ'') c of
        Some d \<Rightarrow> d
      | None \<Rightarrow> c)"

definition toLowerCase_char :: "char \<Rightarrow> char" where
  "toLowerCase_char c =
     (case map_of (zip ''ABCDEFGHIJKLMNOPQRSTUVWXYZ'' ''abcdefghijklmnopqrstuvwxyz'') c of
        Some d \<Rightarrow> d
      | None \<Rightarrow> c)"

definition toUpperCase :: "string \<Rightarrow> string" where
  "toUpperCase s = map toUpperCase_char s"

text \<open>SQL \<^verbatim>\<open>LOWER\<close>.\<close>

definition LOWER :: "string \<Rightarrow> string" where
  "LOWER s = map toLowerCase_char s"

text \<open>\<^verbatim>\<open>s.split(sep)\<close> for a one-character separator: never the empty list.\<close>

fun split :: "char \<Rightarrow> string \<Rightarrow> string list" where
  "split sep [] = [[]]"
| "split sep (c # cs) =
     (if c = sep then [] # split sep cs
      else (case split sep cs of
              [] \<Rightarrow> [[c]]
            | w # ws \<Rightarrow> (c # w) # ws))"

text \<open>\<^verbatim>\<open>s.replace(a, b)\<close> with a string pattern of one character: the first occurrence only.\<close>

fun replace :: "char \<Rightarrow> char \<Rightarrow> string \<Rightarrow> string" where
  "replace a b [] = []"
| "replace a b (c # cs) = (if c = a then b # cs else c # replace a b cs)"

text \<open>\<^verbatim>\<open>x || null\<close> on an optional string: the empty string is falsy.\<close>

definition or_null :: "string option \<Rightarrow> string option" where
  "or_null x = (case x of None \<Rightarrow> None | Some s \<Rightarrow> (if s = [] then None else Some s))"

subsection \<open>The GDP estimator\<close>

text \<open>
  \<^verbatim>\<open>Math.random()\<close> is an input: \<open>u\<close> is the number it returns, with
  \<open>0 \<le> u < 1\<close>.
\<close>

definition getRandomMultiplier :: "real \<Rightarrow> int \<Rightarrow> int \<Rightarrow> int" where
  "getRandomMultiplier u mn mx = \<lfloor>u * of_int (mx - mn + 1)\<rfloor> + mn"

text \<open>
  \<^verbatim>\<open>computeEstimatedGdp(population, exchangeRate)\<close>; \<open>u\<close> is the draw that
  \<^verbatim>\<open>getRandomMultiplier()\<close> makes when the third branch is reached.
\<close>

definition computeEstimatedGdp :: "real \<Rightarrow> int \<Rightarrow> real option \<Rightarrow> real option" where
  "computeEstimatedGdp u population exchangeRate =
     (case exchangeRate of
        None \<Rightarrow> None
      | Some r \<Rightarrow>
          if r = 0 then None
          else if population = 0 then Some 0
          else Some (of_int (population * getRandomMultiplier u 1000 2000) / r))"

text \<open>Whether a call draws a random number: only the third branch does.\<close>

definition draws_multiplier :: "int \<Rightarrow> real option \<Rightarrow> bool" where
  "draws_multiplier population exchangeRate =
     (case exchangeRate of
        None \<Rightarrow> False
      | Some r \<Rightarrow> r \<noteq> 0 \<and> population \<noteq> 0)"

subsection \<open>Gateway data\<close>

text \<open>
  An entry of \<^verbatim>\<open>country.currencies\<close>: \<^verbatim>\<open>null\<close>, or an object whose
  \<^verbatim>\<open>code\<close> may be missing.
\<close>

datatype currency = NullCurrency | Currency "string option"

text \<open>
  A country descriptor. \<open>api_currencies = None\<close> stands for a \<^verbatim>\<open>currencies\<close>
  field that is missing or not an array.
\<close>

record api_country =
  api_name :: "string option"
  api_capital :: "string option"
  api_region :: "string option"
  api_population :: "int option"
  api_flag :: "string option"
  api_currencies :: "currency list option"

type_synonym rates = "string \<Rightarrow> real option"

text \<open>
  The outcome of one \<^verbatim>\<open>axios.get\<close>: rejected (a network error or a status outside
  2xx) with the error's \<^verbatim>\<open>config.url\<close> when it has one, or resolved with a body.
\<close>

datatype 'a fetched = Rejected "string option" | Resolved 'a

text \<open>
  The exchange body: \<open>None\<close> when \<^verbatim>\<open>data\<close> is falsy, else the \<^verbatim>\<open>rates\<close>
  field, \<open>None\<close> when it is missing or falsy.
\<close>

type_synonym exchange_body = "rates option option"

datatype country_body = NoData | NotArray | Array "api_country list"

subsection \<open>The store\<close>

text \<open>
  A row of \<^verbatim>\<open>countries\<close>, by column. The \<^verbatim>\<open>id\<close> column is left out: no
  statement of the controller reads or orders by it.
\<close>

record country_row =
  name :: "string option"
  capital :: "string option"
  region :: "string option"
  population :: int
  currency_code :: "string option"
  exchange_rate :: "real option"
  estimated_gdp :: "real option"
  flag_url :: "string option"
  last_refreshed_at :: "string option"

record status_row =
  total_countries :: nat
  status_refreshed_at :: "string option"

text \<open>
  The committed database. \<open>status = None\<close> is a \<^verbatim>\<open>status\<close> table without
  its row \<^verbatim>\<open>id = 1\<close>.
\<close>

record db =
  countries :: "country_row list"
  status :: "status_row option"

text \<open>
  A connection inside a transaction: the committed database, which every other connection
  reads, and the transaction's own view of it. Statements sent on the connection change
  the view only.
\<close>

record connection =
  committed :: db
  tx_view :: db

definition beginTransaction :: "db \<Rightarrow> connection" where
  "beginTransaction d = \<lparr>committed = d, tx_view = d\<rparr>"

text \<open>What the committed database is after \<^verbatim>\<open>connection.commit()\<close>.\<close>

definition commit :: "connection \<Rightarrow> db" where
  "commit c = tx_view c"

text \<open>What the committed database is after \<^verbatim>\<open>connection.rollback()\<close>.\<close>

definition rollback :: "connection \<Rightarrow> db" where
  "rollback c = committed c"

text \<open>
  The two tables start empty but for the status row that
  \<^verbatim>\<open>initializeDatabase\<close> inserts.
\<close>

definition initial_db :: db where
  "initial_db = \<lparr>countries = [], status = Some \<lparr>total_countries = 0, status_refreshed_at = None\<rparr>\<rparr>"

text \<open>
  \<^verbatim>\<open>LOWER(name) = LOWER(?)\<close>; a comparison with \<^verbatim>\<open>NULL\<close> is never true.
\<close>

definition lower_eq :: "string option \<Rightarrow> string \<Rightarrow> bool" where
  "lower_eq col v = (case col of None \<Rightarrow> False | Some s \<Rightarrow> LOWER s = LOWER v)"

text \<open>Two rows collide on the unique key of \<^verbatim>\<open>name\<close>.\<close>

definition duplicate_key :: "country_row \<Rightarrow> country_row \<Rightarrow> bool" where
  "duplicate_key v r = (case name v of None \<Rightarrow> False | Some n \<Rightarrow> lower_eq (name r) n)"

text \<open>
  \<^verbatim>\<open>INSERT INTO countries ... ON DUPLICATE KEY UPDATE ...\<close>: the colliding row keeps
  its \<^verbatim>\<open>name\<close> and takes every other column of the new values; with no collision
  the values are appended.
\<close>

fun upsert :: "country_row \<Rightarrow> country_row list \<Rightarrow> country_row list" where
  "upsert v [] = [v]"
| "upsert v (r # rs) =
     (if duplicate_key v r
      then r\<lparr>capital := capital v, region := region v, population := population v,
             currency_code := currency_code v, exchange_rate := exchange_rate v,
             estimated_gdp := estimated_gdp v, flag_url := flag_url v,
             last_refreshed_at := last_refreshed_at v\<rparr> # rs
      else r # upsert v rs)"

text \<open>The statement fails on a \<^verbatim>\<open>NULL\<close> name: the column is \<^verbatim>\<open>NOT NULL\<close>.\<close>

definition query_upsert :: "country_row \<Rightarrow> country_row list \<Rightarrow> country_row list option" where
  "query_upsert v t = (if name v = None then None else Some (upsert v t))"

text \<open>
  \<^verbatim>\<open>UPDATE status SET total_countries = ?, last_refreshed_at = ? WHERE id = 1\<close>:
  nothing happens when the row is missing.
\<close>

definition update_status :: "nat \<Rightarrow> string \<Rightarrow> status_row option \<Rightarrow> status_row option" where
  "update_status totalCountries dbTimestamp s =
     map_option
       (\<lambda>_. \<lparr>total_countries = totalCountries, status_refreshed_at = Some dbTimestamp\<rparr>) s"

text \<open>\<^verbatim>\<open>ORDER BY\<close>: a stable insertion sort by the order \<open>le\<close>.\<close>

fun insert_by :: "('a \<Rightarrow> 'a \<Rightarrow> bool) \<Rightarrow> 'a \<Rightarrow> 'a list \<Rightarrow> 'a list" where
  "insert_by le x [] = [x]"
| "insert_by le x (y # ys) = (if le x y then x # y # ys else y # insert_by le x ys)"

definition ORDER_BY :: "('a \<Rightarrow> 'a \<Rightarrow> bool) \<Rightarrow> 'a list \<Rightarrow> 'a list" where
  "ORDER_BY le rows = foldr (insert_by le) rows []"

text \<open>The order of a nullable decimal column: \<^verbatim>\<open>NULL\<close> is below every number.\<close>

fun decimal_le :: "real option \<Rightarrow> real option \<Rightarrow> bool" where
  "decimal_le None _ = True"
| "decimal_le (Some a) None = False"
| "decimal_le (Some a) (Some b) = (a \<le> b)"

text \<open>The order of a string column: \<^verbatim>\<open>NULL\<close> first, then by character, letter case apart.\<close>

fun chars_le :: "string \<Rightarrow> string \<Rightarrow> bool" where
  "chars_le [] _ = True"
| "chars_le (a # as) [] = False"
| "chars_le (a # as) (b # bs) =
     ((of_char a :: nat) < of_char b \<or> (a = b \<and> chars_le as bs))"

fun varchar_le :: "string option \<Rightarrow> string option \<Rightarrow> bool" where
  "varchar_le None _ = True"
| "varchar_le (Some a) None = False"
| "varchar_le (Some a) (Some b) = chars_le (LOWER a) (LOWER b)"

definition estimated_gdp_DESC :: "country_row \<Rightarrow> country_row \<Rightarrow> bool" where
  "estimated_gdp_DESC r s = decimal_le (estimated_gdp s) (estimated_gdp r)"

definition estimated_gdp_ASC :: "country_row \<Rightarrow> country_row \<Rightarrow> bool" where
  "estimated_gdp_ASC r s = decimal_le (estimated_gdp r) (estimated_gdp s)"

definition name_ASC :: "country_row \<Rightarrow> country_row \<Rightarrow> bool" where
  "name_ASC r s = varchar_le (name r) (name s)"

subsection \<open>The join of a country descriptor with the rate mapping\<close>

datatype js_error = TypeError | DbError | ImageError

text \<open>
  Lines 136 to 142: the first currency's code, uppercased; reading \<^verbatim>\<open>.code\<close> of a
  \<^verbatim>\<open>null\<close> entry throws.
\<close>

definition first_currency_code :: "api_country \<Rightarrow> js_error + string option" where
  "first_currency_code c =
     (case api_currencies c of
        None \<Rightarrow> Inr None
      | Some [] \<Rightarrow> Inr None
      | Some (NullCurrency # _) \<Rightarrow> Inl TypeError
      | Some (Currency code # _) \<Rightarrow>
          Inr (Some (toUpperCase (case code of None \<Rightarrow> [] | Some s \<Rightarrow> s))))"

text \<open>
  Lines 144 to 148: the rate is looked up only for a truthy code (neither
  \<^verbatim>\<open>null\<close> nor empty).
\<close>

definition lookup_rate :: "rates \<Rightarrow> string option \<Rightarrow> real option" where
  "lookup_rate exchangeRates code =
     (case code of
        None \<Rightarrow> None
      | Some s \<Rightarrow> (if s = [] then None else exchangeRates s))"

text \<open>Line 150: \<^verbatim>\<open>country.population || 0\<close>.\<close>

definition population_or_0 :: "api_country \<Rightarrow> int" where
  "population_or_0 c = (case api_population c of None \<Rightarrow> 0 | Some p \<Rightarrow> p)"

text \<open>Lines 135 to 181: the bind values of the upsert for one descriptor.\<close>

definition join_country ::
  "string \<Rightarrow> rates \<Rightarrow> real \<Rightarrow> api_country \<Rightarrow> js_error + country_row" where
  "join_country dbTimestamp exchangeRates u c =
     (case first_currency_code c of
        Inl e \<Rightarrow> Inl e
      | Inr code \<Rightarrow>
          let rate = lookup_rate exchangeRates code;
              pop = population_or_0 c;
              gdp = computeEstimatedGdp u pop rate
          in Inr \<lparr>name = api_name c,
                  capital = or_null (api_capital c),
                  region = or_null (api_region c),
                  population = pop,
                  currency_code = code,
                  exchange_rate = rate,
                  estimated_gdp = (if code = None then Some 0 else gdp),
                  flag_url = or_null (api_flag c),
                  last_refreshed_at = Some dbTimestamp\<rparr>)"

subsection \<open>Responses\<close>

datatype body =
    Error string "string option"
  | Refreshed string nat string
  | Countries "country_row list"
  | Country country_row
  | Message string

record response =
  status_code :: nat
  json :: body

text \<open>\<^verbatim>\<open>sendError(res, status, error, details)\<close>: falsy details are left out.\<close>

definition sendError :: "nat \<Rightarrow> string \<Rightarrow> string option \<Rightarrow> response" where
  "sendError st error details = \<lparr>status_code = st, json = Error error (or_null details)\<rparr>"

text \<open>\<^verbatim>\<open>res.json(x)\<close> on a fresh response: status 200.\<close>

definition res_json :: "body \<Rightarrow> response" where
  "res_json b = \<lparr>status_code = 200, json = b\<rparr>"

subsection \<open>One refresh cycle\<close>

text \<open>
  What the summary image shows: the total, the leaders (name and GDP) and the
  timestamp. The rendering to PNG is outside the model.
\<close>

record summary =
  summary_total :: nat
  summary_top :: "(string option \<times> real option) list"
  summary_refreshed :: string

text \<open>What the service keeps: the committed database and the image file.\<close>

record world =
  database :: db
  summary_png :: "summary option"

text \<open>
  Everything one call of \<^verbatim>\<open>refreshCountries\<close> reads from outside: the clock, the
  two gateway answers (and which rejection \<^verbatim>\<open>Promise.all\<close> sees first when both
  reject), the numbers \<^verbatim>\<open>Math.random()\<close> returns in order, and which of the calls
  into the database driver and the image library throw. \<open>upsert_fails i\<close> is the upsert of
  the \<open>i\<close>-th descriptor, counted from 0.
\<close>

record cycle =
  ISO_NOW :: string
  exchangeRes :: "exchange_body fetched"
  countryRes :: "country_body fetched"
  country_rejects_first :: bool
  random :: "nat \<Rightarrow> real"
  getConnection_fails :: bool
  beginTransaction_fails :: bool
  upsert_fails :: "nat \<Rightarrow> bool"
  status_update_fails :: bool
  top5_fails :: bool
  image_fails :: bool
  commit_fails :: bool

fun str_includes :: "string \<Rightarrow> string \<Rightarrow> bool" where
  "str_includes [] sub = (sub = [])"
| "str_includes (c # cs) sub = (take (length sub) (c # cs) = sub \<or> str_includes cs sub)"

text \<open>\<^verbatim>\<open>Promise.all\<close> of the two requests: the first rejection, or both bodies.\<close>

definition Promise_all ::
  "bool \<Rightarrow> 'a fetched \<Rightarrow> 'b fetched \<Rightarrow> string option + ('a \<times> 'b)" where
  "Promise_all second_first a b =
     (case a of
        Resolved x \<Rightarrow> (case b of Resolved y \<Rightarrow> Inr (x, y) | Rejected e \<Rightarrow> Inl e)
      | Rejected e \<Rightarrow>
          (case b of
             Resolved y \<Rightarrow> Inl e
           | Rejected e' \<Rightarrow> Inl (if second_first then e' else e)))"

definition invalid_structure :: response where
  "invalid_structure =
     sendError 503 ''External data source unavailable''
       (Some ''External API returned invalid or unexpected data structure.'')"

text \<open>
  Lines 110 to 125: both fetches and the shape check. \<open>Inl\<close> is the response sent before
  \<^verbatim>\<open>API_FAILURE\<close> is thrown.
\<close>

definition fetch_both :: "cycle \<Rightarrow> response + (rates \<times> api_country list)" where
  "fetch_both cy =
     (case Promise_all (country_rejects_first cy) (exchangeRes cy) (countryRes cy) of
        Inl url \<Rightarrow>
          let apiName =
                (if (case url of None \<Rightarrow> False | Some s \<Rightarrow> str_includes s ''restcountries'')
                 then ''Rest Countries API'' else ''Exchange Rate API'')
          in Inl (sendError 503 ''External data source unavailable''
                    (Some (''Could not fetch data from '' @ apiName)))
      | Inr (ex, co) \<Rightarrow>
          (case ex of
             None \<Rightarrow> Inl invalid_structure
           | Some None \<Rightarrow> Inl invalid_structure
           | Some (Some exchangeRates) \<Rightarrow>
               (case co of
                  NoData \<Rightarrow> Inl invalid_structure
                | NotArray \<Rightarrow> Inl invalid_structure
                | Array countryData \<Rightarrow> Inr (exchangeRates, countryData))))"

text \<open>Line 127: \<^verbatim>\<open>ISO_NOW.slice(0, 19).replace('T', ' ')\<close>.\<close>

definition mysql_datetime :: "string \<Rightarrow> string" where
  "mysql_datetime now = replace CHR ''T'' CHR '' '' (take 19 now)"

text \<open>
  Lines 132 to 185, the loop over \<^verbatim>\<open>countryData\<close> on the transaction's view of the
  table. \<open>k\<close> counts the random numbers drawn so far, \<open>totalCountries\<close> the upserts done.
\<close>

fun upsert_each ::
  "cycle \<Rightarrow> rates \<Rightarrow> nat \<Rightarrow> nat \<Rightarrow> api_country list \<Rightarrow> country_row list
     \<Rightarrow> js_error + (country_row list \<times> nat)" where
  "upsert_each cy exchangeRates k totalCountries [] t = Inr (t, totalCountries)"
| "upsert_each cy exchangeRates k totalCountries (country # rest) t =
     (case join_country (mysql_datetime (ISO_NOW cy)) exchangeRates (random cy k) country of
        Inl e \<Rightarrow> Inl e
      | Inr v \<Rightarrow>
          if upsert_fails cy totalCountries then Inl DbError
          else (case query_upsert v t of
                  None \<Rightarrow> Inl DbError
                | Some t' \<Rightarrow>
                    upsert_each cy exchangeRates
                      (if draws_multiplier (population v) (exchange_rate v) then Suc k else k)
                      (Suc totalCountries) rest t'))"

text \<open>
  \<^verbatim>\<open>SELECT name, estimated_gdp FROM countries ORDER BY estimated_gdp DESC LIMIT 5\<close>.
\<close>

definition top5 :: "country_row list \<Rightarrow> (string option \<times> real option) list" where
  "top5 t = map (\<lambda>r. (name r, estimated_gdp r)) (take 5 (ORDER_BY estimated_gdp_DESC t))"

text \<open>
  Lines 132 to 199: everything between \<^verbatim>\<open>beginTransaction\<close> and \<^verbatim>\<open>commit\<close>.
  The statements run on the connection's view; the result is the connection before the
  commit and the summary that was written to the image file.
\<close>

definition transaction ::
  "cycle \<Rightarrow> rates \<Rightarrow> api_country list \<Rightarrow> connection
     \<Rightarrow> js_error + (connection \<times> summary)" where
  "transaction cy exchangeRates countryData c =
     (case upsert_each cy exchangeRates 0 0 countryData (countries (tx_view c)) of
        Inl e \<Rightarrow> Inl e
      | Inr (t, totalCountries) \<Rightarrow>
          if status_update_fails cy then Inl DbError
          else if top5_fails cy then Inl DbError
          else if image_fails cy then Inl ImageError
          else Inr (c\<lparr>tx_view :=
                        \<lparr>countries = t,
                         status = update_status totalCountries (mysql_datetime (ISO_NOW cy))
                                    (status (tx_view c))\<rparr>\<rparr>,
                    \<lparr>summary_total = totalCountries, summary_top = top5 t,
                      summary_refreshed = ISO_NOW cy\<rparr>))"

definition internal_error :: response where
  "internal_error =
     sendError 500 ''Internal server error''
       (Some ''A database or processing error occurred during refresh.'')"

text \<open>
  \<^verbatim>\<open>refreshCountries\<close>. When \<^verbatim>\<open>API_FAILURE\<close> is thrown or
  \<^verbatim>\<open>getConnection\<close> fails there is no connection and the handler rolls nothing
  back; after that, every throw reaches the handler's \<^verbatim>\<open>rollback\<close>, and only the
  last statement of the \<^verbatim>\<open>try\<close> block commits. A failing commit is taken to commit
  nothing, and \<^verbatim>\<open>rollback\<close> and \<^verbatim>\<open>release\<close> not to throw. The image file
  is written before the commit and is not restored by a failing commit.
\<close>

definition refreshCountries :: "cycle \<Rightarrow> world \<Rightarrow> response \<times> world" where
  "refreshCountries cy w =
     (case fetch_both cy of
        Inl sent \<Rightarrow> (sent, w)
      | Inr (exchangeRates, countryData) \<Rightarrow>
          if getConnection_fails cy then (internal_error, w)
          else
            let connection = beginTransaction (database w)
            in if beginTransaction_fails cy
               then (internal_error, w\<lparr>database := rollback connection\<rparr>)
               else (case transaction cy exchangeRates countryData connection of
                       Inl e \<Rightarrow> (internal_error, w\<lparr>database := rollback connection\<rparr>)
                     | Inr (connection', img) \<Rightarrow>
                         if commit_fails cy
                         then (internal_error,
                               \<lparr>database = rollback connection', summary_png = Some img\<rparr>)
                         else (res_json
                                 (Refreshed
                                    ''Country data and exchange rates refreshed successfully.''
                                    (summary_total img) (ISO_NOW cy)),
                               \<lparr>database = commit connection', summary_png = Some img\<rparr>)))"

subsection \<open>Reading and deleting\<close>

text \<open>\<^verbatim>\<open>req.query\<close> of \<^verbatim>\<open>GET /countries\<close>.\<close>

record query =
  q_region :: "string option"
  q_currency :: "string option"
  q_sort :: "string option"

datatype order_by = name_ASC_clause | estimated_gdp_DESC_clause | estimated_gdp_ASC_clause

text \<open>An element of a destructured array: \<^verbatim>\<open>undefined\<close> past the end.\<close>

definition element :: "'a list \<Rightarrow> nat \<Rightarrow> 'a option" where
  "element xs i = (if i < length xs then Some (xs ! i) else None)"

text \<open>Lines 246 to 257: the \<^verbatim>\<open>ORDER BY\<close> clause chosen for a \<^verbatim>\<open>sort\<close> parameter.\<close>

definition orderBy :: "string option \<Rightarrow> order_by" where
  "orderBy sort_param =
     (case sort_param of
        None \<Rightarrow> name_ASC_clause
      | Some s \<Rightarrow>
          if s = [] then name_ASC_clause
          else
            let parts = split CHR ''_'' s;
                field = element parts 0;
                direction = element parts 1
            in if field = Some ''gdp'' \<and> (direction = Some ''desc'' \<or> direction = Some ''asc'')
               then (if direction = Some ''desc'' then estimated_gdp_DESC_clause
                     else estimated_gdp_ASC_clause)
               else name_ASC_clause)"

fun run_order_by :: "order_by \<Rightarrow> country_row list \<Rightarrow> country_row list" where
  "run_order_by name_ASC_clause rows = ORDER_BY name_ASC rows"
| "run_order_by estimated_gdp_DESC_clause rows = ORDER_BY estimated_gdp_DESC rows"
| "run_order_by estimated_gdp_ASC_clause rows = ORDER_BY estimated_gdp_ASC rows"

text \<open>Lines 232 to 244: a filter applies only when its parameter is a non-empty string.\<close>

definition condition :: "string option \<Rightarrow> string option \<Rightarrow> bool" where
  "condition param col =
     (case param of
        None \<Rightarrow> True
      | Some v \<Rightarrow> (if v = [] then True else lower_eq col v))"

definition where_clause :: "query \<Rightarrow> country_row \<Rightarrow> bool" where
  "where_clause q r =
     (condition (q_region q) (region r) \<and> condition (q_currency q) (currency_code r))"

text \<open>
  The three handlers below take \<open>query_throws\<close>: whether \<^verbatim>\<open>pool.query\<close> rejects.
\<close>

definition getCountries :: "bool \<Rightarrow> query \<Rightarrow> db \<Rightarrow> response" where
  "getCountries query_throws q d =
     (if query_throws then sendError 500 ''Internal server error'' None
      else res_json
             (Countries (run_order_by (orderBy (q_sort q)) (filter (where_clause q) (countries d)))))"

definition getCountryByName :: "bool \<Rightarrow> string \<Rightarrow> db \<Rightarrow> response" where
  "getCountryByName query_throws n d =
     (if query_throws then sendError 500 ''Internal server error'' None
      else (case filter (\<lambda>r. lower_eq (name r) n) (countries d) of
              [] \<Rightarrow> sendError 404 ''Country not found'' None
            | r # _ \<Rightarrow> res_json (Country r)))"

definition deleteCountry :: "bool \<Rightarrow> string \<Rightarrow> db \<Rightarrow> response \<times> db" where
  "deleteCountry query_throws n d =
     (if query_throws then (sendError 500 ''Internal server error'' None, d)
      else
        let kept = filter (\<lambda>r. \<not> lower_eq (name r) n) (countries d);
            affectedRows = length (countries d) - length kept
        in (if affectedRows = 0 then sendError 404 ''Country not found'' None
            else res_json (Message ''Country deleted successfully.''),
            d\<lparr>countries := kept\<rparr>))"

subsection \<open>The unique key\<close>

text \<open>
  What the schema guarantees of the table: no \<^verbatim>\<open>NULL\<close> name, and no two rows whose
  names are equal up to letter case.
\<close>

definition unique_names :: "country_row list \<Rightarrow> bool" where
  "unique_names t =
     (list_all (\<lambda>r. name r \<noteq> None) t \<and> distinct (map (\<lambda>r. map_option LOWER (name r)) t))"

subsection \<open>Example inputs\<close>

text \<open>A descriptor with a name, a population and a currency list, and nothing else.\<close>

definition descriptor :: "string \<Rightarrow> int \<Rightarrow> currency list option \<Rightarrow> api_country" where
  "descriptor n p cs =
     \<lparr>api_name = Some n, api_capital = None, api_region = None, api_population = Some p,
      api_flag = None, api_currencies = cs\<rparr>"

text \<open>The bind values such a descriptor is joined to at \<^verbatim>\<open>2025-01-01 00:00:00\<close>.\<close>

definition joined ::
  "string \<Rightarrow> int \<Rightarrow> string option \<Rightarrow> real option \<Rightarrow> real option \<Rightarrow> country_row" where
  "joined n p code rate gdp =
     \<lparr>name = Some n, capital = None, region = None, population = p, currency_code = code,
      exchange_rate = rate, estimated_gdp = gdp, flag_url = None,
      last_refreshed_at = Some ''2025-01-01 00:00:00''\<rparr>"

text \<open>A row with a name and a GDP only.\<close>

definition stored :: "string \<Rightarrow> real option \<Rightarrow> country_row" where
  "stored n gdp =
     \<lparr>name = Some n, capital = None, region = None, population = 0, currency_code = None,
      exchange_rate = None, estimated_gdp = gdp, flag_url = None, last_refreshed_at = None\<rparr>"

text \<open>
  A cycle at midnight of 2025-01-01 in which nothing throws and every random draw is
  \<open>1/2\<close> (multiplier 1500).
\<close>

definition quiet_cycle :: "exchange_body fetched \<Rightarrow> country_body fetched \<Rightarrow> cycle" where
  "quiet_cycle ex co =
     \<lparr>ISO_NOW = ''2025-01-01T00:00:00.000Z'', exchangeRes = ex, countryRes = co,
      country_rejects_first = False, random = (\<lambda>_. 1/2),
      getConnection_fails = False, beginTransaction_fails = False, upsert_fails = (\<lambda>_. False),
      status_update_fails = False, top5_fails = False, image_fails = False, commit_fails = False\<rparr>"

section \<open>Properties of the estimator\<close>

lemmas join_defs = join_country_def first_currency_code_def lookup_rate_def population_or_0_def
  computeEstimatedGdp_def getRandomMultiplier_def toUpperCase_def toUpperCase_char_def or_null_def
  descriptor_def joined_def

lemmas refresh_defs = refreshCountries_def fetch_both_def Promise_all_def transaction_def
  beginTransaction_def commit_def rollback_def quiet_cycle_def mysql_datetime_def query_upsert_def duplicate_key_def lower_eq_def LOWER_def
  toLowerCase_char_def update_status_def top5_def ORDER_BY_def estimated_gdp_DESC_def
  draws_multiplier_def res_json_def internal_error_def invalid_structure_def sendError_def
  initial_db_def stored_def

lemma multiplier_range:
  assumes "0 \<le> u" "u < 1"
  shows "1000 \<le> getRandomMultiplier u 1000 2000 \<and> getRandomMultiplier u 1000 2000 \<le> 2000"
proof -
  have lo: "0 \<le> u * 1001" using assms by simp
  have hi: "u * 1001 < 1001" using assms by simp
  have "0 \<le> \<lfloor>u * 1001\<rfloor>" using lo by simp
  moreover have "\<lfloor>u * 1001\<rfloor> < 1001" using hi by (simp add: floor_less_iff)
  ultimately show ?thesis by (simp add: getRandomMultiplier_def)
qed

text \<open>
  C2, as amended. For every non-negative integer population \<open>p\<close>, every optional exchange
  rate and every draw \<open>u\<close> of \<^verbatim>\<open>Math.random()\<close> in \<open>[0, 1)\<close>, the estimator returns:
  absent when the rate is absent or is 0; exactly 0 when the rate is present and not 0 and
  the population is 0; otherwise \<open>p \<times> m \<div> rate\<close> for an integer \<open>m\<close> with
  \<open>1000 \<le> m \<le> 2000\<close>; and for a positive rate the result lies in the closed interval
  \<open>[p \<times> 1000 \<div> rate, p \<times> 2000 \<div> rate]\<close>.
\<close>

theorem estimate_cases:
  assumes "0 \<le> u" "u < 1" "0 \<le> p"
  shows "computeEstimatedGdp u p None = None
       \<and> computeEstimatedGdp u p (Some 0) = None
       \<and> (r \<noteq> 0 \<longrightarrow> computeEstimatedGdp u 0 (Some r) = Some 0)
       \<and> (r \<noteq> 0 \<longrightarrow> p \<noteq> 0 \<longrightarrow>
            (\<exists>m. 1000 \<le> m \<and> m \<le> 2000 \<and>
               computeEstimatedGdp u p (Some r) = Some (of_int p * of_int m / r)))
       \<and> (0 < r \<longrightarrow>
            (\<exists>g. computeEstimatedGdp u p (Some r) = Some g \<and>
               of_int p * 1000 / r \<le> g \<and> g \<le> of_int p * 2000 / r))"
proof -
  let ?m = "getRandomMultiplier u 1000 2000"
  have m: "1000 \<le> ?m" "?m \<le> 2000" using multiplier_range [OF assms(1,2)] by simp_all
  have c4: "r \<noteq> 0 \<Longrightarrow> p \<noteq> 0 \<Longrightarrow>
      computeEstimatedGdp u p (Some r) = Some (of_int p * of_int ?m / r)"
    by (simp add: computeEstimatedGdp_def)
  have c5: "\<exists>g. computeEstimatedGdp u p (Some r) = Some g \<and>
               of_int p * 1000 / r \<le> g \<and> g \<le> of_int p * 2000 / r" if r: "0 < r"
  proof (cases "p = 0")
    case True
    then show ?thesis using r by (simp add: computeEstimatedGdp_def)
  next
    case False
    have p: "0 \<le> (of_int p :: real)" using assms(3) by simp
    have "(of_int p :: real) * 1000 \<le> of_int p * of_int ?m"
      using m(1) p
      by (intro mult_left_mono) (simp_all add: of_int_le_iff [symmetric] del: of_int_le_iff)
    moreover have "(of_int p :: real) * of_int ?m \<le> of_int p * 2000"
      using m(2) p
      by (intro mult_left_mono) (simp_all add: of_int_le_iff [symmetric] del: of_int_le_iff)
    ultimately show ?thesis using r False
      by (simp add: computeEstimatedGdp_def divide_le_cancel)
  qed
  show ?thesis using c4 c5 m by (auto simp: computeEstimatedGdp_def)
qed

text \<open>
  The spec's end-to-end figures: a million people at rate 2, with the draw \<open>1/2\<close>
  (multiplier 1500).
\<close>

theorem estimate_cases_witness:
  "computeEstimatedGdp (1/2) 1000000 None = None
   \<and> computeEstimatedGdp (1/2) 1000000 (Some 0) = None
   \<and> computeEstimatedGdp (1/2) 0 (Some 2) = Some 0
   \<and> computeEstimatedGdp (1/2) 1000000 (Some 2) = Some 750000000"
  using estimate_cases [of "1/2" 1000000 2]
  by (simp add: computeEstimatedGdp_def getRandomMultiplier_def)

text \<open>
  C2 as stated fails: at rate 0 with population 5 (neither of its first two cases) the
  estimator returns nothing, not \<open>5 \<times> m \<div> 0\<close>; and at rate \<open>-1\<close> with population 1
  and multiplier 1000 the result \<open>-1000\<close> is above \<open>1 \<times> 2000 \<div> (-1)\<close>, the upper end
  of the stated interval.
\<close>

theorem estimate_zero_rate_counterexample:
  "computeEstimatedGdp (1/2) 5 (Some 0) = None
   \<and> computeEstimatedGdp 0 1 (Some (- 1)) = Some (- 1000)
   \<and> \<not> ((- 1000 :: real) \<le> of_int 1 * 2000 / (- 1))"
  by (simp add: computeEstimatedGdp_def getRandomMultiplier_def)

section \<open>Properties of the join\<close>













section \<open>Properties of the refresh\<close>

lemma upsert_each_count:
  "upsert_each cy ex k n cs t = Inr (t', m) \<Longrightarrow> m = n + length cs"
proof (induction cs arbitrary: k n t)
  case Nil
  then show ?case by simp
next
  case (Cons c cs)
  then show ?case
    by (fastforce split: sum.splits if_splits option.splits)
qed





text \<open>One turn of the loop that went through.\<close>

lemma upsert_each_step:
  assumes "upsert_each cy ex k n (c # cs) t = Inr (t', m)"
  obtains v k' x where "join_country (mysql_datetime (ISO_NOW cy)) ex (random cy k) c = Inr v"
    and "name v = Some x" and "upsert_each cy ex k' (Suc n) cs (upsert v t) = Inr (t', m)"
  using assms
  by (auto simp: query_upsert_def split: sum.splits if_splits)




text \<open>What a transaction that reaches the commit has done.\<close>

lemma transaction_result:
  assumes "transaction cy ex cs c = Inr (c', img)"
  shows "\<exists>t. upsert_each cy ex 0 0 cs (countries (tx_view c)) = Inr (t, length cs)
           \<and> c' = c\<lparr>tx_view :=
                     \<lparr>countries = t,
                      status = update_status (length cs) (mysql_datetime (ISO_NOW cy))
                                 (status (tx_view c))\<rparr>\<rparr>
           \<and> img = \<lparr>summary_total = length cs, summary_top = top5 t,
                     summary_refreshed = ISO_NOW cy\<rparr>"
proof (cases "upsert_each cy ex 0 0 cs (countries (tx_view c))")
  case (Inl e)
  then show ?thesis using assms by (simp add: transaction_def)
next
  case (Inr p)
  obtain t m where p: "p = (t, m)" by (cases p)
  have m: "m = length cs" using upsert_each_count [of cy ex 0 0 cs _ t m] Inr p by simp
  show ?thesis using assms Inr p m
    by (auto simp: transaction_def split: if_splits)
qed

text \<open>The two ways a refresh ends: no success and nothing committed, or a commit.\<close>

lemma refresh_cases:
  assumes "refreshCountries cy w = (resp, w')"
  shows "(status_code resp \<noteq> 200 \<and> database w' = database w)
       \<or> (status_code resp = 200 \<and>
            (\<exists>ex cs c' img. fetch_both cy = Inr (ex, cs)
               \<and> transaction cy ex cs (beginTransaction (database w)) = Inr (c', img)
               \<and> w' = \<lparr>database = commit c', summary_png = Some img\<rparr>))"
proof (cases "fetch_both cy")
  case (Inl sent)
  then have "status_code sent \<noteq> 200"
    by (auto simp: fetch_both_def invalid_structure_def sendError_def Let_def
        split: sum.splits option.splits country_body.splits prod.splits)
  then show ?thesis using assms Inl by (auto simp: refreshCountries_def)
next
  case (Inr p)
  obtain ex cs where p: "p = (ex, cs)" by (cases p)
  have not200: "status_code internal_error \<noteq> 200"
    by (simp add: internal_error_def sendError_def)
  show ?thesis
  proof (cases "transaction cy ex cs (beginTransaction (database w))")
    case (Inl e)
    then show ?thesis using assms Inr p not200
      by (auto simp: refreshCountries_def Let_def rollback_def beginTransaction_def
          split: if_splits)
  next
    case tr: (Inr q)
    obtain c' img where q: "q = (c', img)" by (cases q)
    from transaction_result [of cy ex cs "beginTransaction (database w)" c' img] tr q
    have "committed c' = database w" by (auto simp: beginTransaction_def)
    then show ?thesis using assms Inr p tr q not200
      by (auto simp: refreshCountries_def Let_def rollback_def beginTransaction_def
          res_json_def split: if_splits)
  qed
qed





text \<open>
  C5 fails on the code. After a successful refresh of the empty table with the two
  descriptors \<^verbatim>\<open>France\<close> and \<^verbatim>\<open>FRANCE\<close> the table has one row and
  \<^verbatim>\<open>total_countries\<close> is 2; after a successful refresh with the single descriptor
  \<^verbatim>\<open>France\<close> of a table that held \<^verbatim>\<open>Atlantis\<close> the table has two rows and
  \<^verbatim>\<open>total_countries\<close> is 1. The counter counts the upserts, not the rows.
\<close>

theorem total_countries_not_row_count:
  "status_code (fst (refreshCountries
       (quiet_cycle (Resolved (Some (Some Map.empty)))
          (Resolved (Array [descriptor ''France'' 5 None, descriptor ''FRANCE'' 7 None])))
       \<lparr>database = initial_db, summary_png = None\<rparr>)) = 200
   \<and> database (snd (refreshCountries
       (quiet_cycle (Resolved (Some (Some Map.empty)))
          (Resolved (Array [descriptor ''France'' 5 None, descriptor ''FRANCE'' 7 None])))
       \<lparr>database = initial_db, summary_png = None\<rparr>))
     = \<lparr>countries = [joined ''France'' 7 None None (Some 0)],
        status = Some \<lparr>total_countries = 2, status_refreshed_at = Some ''2025-01-01 00:00:00''\<rparr>\<rparr>
   \<and> database (snd (refreshCountries
       (quiet_cycle (Resolved (Some (Some Map.empty)))
          (Resolved (Array [descriptor ''France'' 5 None])))
       \<lparr>database = \<lparr>countries = [stored ''Atlantis'' None],
                     status = Some \<lparr>total_countries = 1, status_refreshed_at = None\<rparr>\<rparr>,
        summary_png = None\<rparr>))
     = \<lparr>countries = [stored ''Atlantis'' None, joined ''France'' 5 None None (Some 0)],
        status = Some \<lparr>total_countries = 1, status_refreshed_at = Some ''2025-01-01 00:00:00''\<rparr>\<rparr>"
  by (simp add: refresh_defs join_defs)

section \<open>Properties of the ordering\<close>

lemma mset_insert_by: "mset (insert_by le x ys) = add_mset x (mset ys)"
  by (induction ys) auto

lemma mset_ORDER_BY: "mset (ORDER_BY le rows) = mset rows"
  by (induction rows) (auto simp: ORDER_BY_def mset_insert_by)

lemma set_insert_by: "set (insert_by le x ys) = insert x (set ys)"
  by (induction ys) auto

lemma sorted_insert_by:
  assumes total: "\<And>a b. le a b \<or> le b a" and trans: "\<And>a b c. le a b \<Longrightarrow> le b c \<Longrightarrow> le a c"
  shows "sorted_wrt le ys \<Longrightarrow> sorted_wrt le (insert_by le x ys)"
proof (induction ys)
  case Nil
  then show ?case by simp
next
  case (Cons y ys)
  show ?case
  proof (cases "le x y")
    case True
    then have "\<forall>z\<in>set ys. le x z" using Cons.prems trans by auto
    then show ?thesis using True Cons.prems by simp
  next
    case False
    then have "le y x" using total by blast
    then show ?thesis using False Cons by (auto simp: set_insert_by)
  qed
qed

lemma sorted_ORDER_BY:
  assumes "\<And>a b. le a b \<or> le b a" and "\<And>a b c. le a b \<Longrightarrow> le b c \<Longrightarrow> le a c"
  shows "sorted_wrt le (ORDER_BY le rows)"
proof (induction rows)
  case Nil
  then show ?case by (simp add: ORDER_BY_def)
next
  case (Cons r rows)
  have "ORDER_BY le (r # rows) = insert_by le r (ORDER_BY le rows)"
    by (simp add: ORDER_BY_def)
  then show ?case using sorted_insert_by [of le, OF assms Cons] by simp
qed

lemma decimal_le_total: "decimal_le a b \<or> decimal_le b a"
  by (cases a; cases b) auto

lemma decimal_le_trans: "decimal_le a b \<Longrightarrow> decimal_le b c \<Longrightarrow> decimal_le a c"
  by (cases a; cases b; cases c) auto

lemma sorted_estimated_gdp_DESC: "sorted_wrt estimated_gdp_DESC (ORDER_BY estimated_gdp_DESC rows)"
  by (rule sorted_ORDER_BY)
     (auto simp: estimated_gdp_DESC_def decimal_le_total intro: decimal_le_trans)

lemma estimated_gdp_DESC_nth:
  assumes "i < j" "j < length (ORDER_BY estimated_gdp_DESC rows)"
  shows "(estimated_gdp (ORDER_BY estimated_gdp_DESC rows ! i) = None \<longrightarrow>
            estimated_gdp (ORDER_BY estimated_gdp_DESC rows ! j) = None)
       \<and> (\<forall>a b. estimated_gdp (ORDER_BY estimated_gdp_DESC rows ! i) = Some a \<and>
                 estimated_gdp (ORDER_BY estimated_gdp_DESC rows ! j) = Some b \<longrightarrow> b \<le> a)"
proof -
  let ?xs = "ORDER_BY estimated_gdp_DESC rows"
  have "estimated_gdp_DESC (?xs ! i) (?xs ! j)"
    using sorted_estimated_gdp_DESC [of rows] assms by (simp add: sorted_wrt_iff_nth_less)
  then have "decimal_le (estimated_gdp (?xs ! j)) (estimated_gdp (?xs ! i))"
    by (simp add: estimated_gdp_DESC_def)
  then show ?thesis
    by (cases "estimated_gdp (?xs ! i)"; cases "estimated_gdp (?xs ! j)") auto
qed

lemma orderBy_gdp_desc: "orderBy (Some ''gdp_desc'') = estimated_gdp_DESC_clause"
  by (simp add: orderBy_def element_def)

lemma where_clause_sort: "where_clause (q\<lparr>q_sort := s\<rparr>) = where_clause q"
  by (simp add: where_clause_def fun_eq_iff)

text \<open>
  C7. For every state of the countries table and every filter,
  \<^verbatim>\<open>GET /countries?sort=gdp_desc\<close> answers 200 with the rows that pass the filter, each
  once, ordered so that a row never comes before a row with a larger
  \<^verbatim>\<open>estimated_gdp\<close> and no row with a null \<^verbatim>\<open>estimated_gdp\<close> comes before a
  row with a number. The top-5 read-back is the first five rows of that order on the
  unfiltered table, and it is what a successful refresh hands to the summary image.
\<close>

theorem gdp_desc_nulls_last:
  "(\<exists>rows. getCountries False (q\<lparr>q_sort := Some ''gdp_desc''\<rparr>) d = res_json (Countries rows)
      \<and> mset rows = mset (filter (where_clause q) (countries d))
      \<and> (\<forall>i j. i < j \<and> j < length rows \<longrightarrow>
            (estimated_gdp (rows ! i) = None \<longrightarrow> estimated_gdp (rows ! j) = None)
          \<and> (\<forall>a b. estimated_gdp (rows ! i) = Some a \<and> estimated_gdp (rows ! j) = Some b \<longrightarrow>
                 b \<le> a)))
   \<and> (\<forall>rows. getCountries False \<lparr>q_region = None, q_currency = None, q_sort = Some ''gdp_desc''\<rparr> d
               = res_json (Countries rows) \<longrightarrow>
          top5 (countries d) = map (\<lambda>r. (name r, estimated_gdp r)) (take 5 rows))
   \<and> (refreshCountries cy w = (resp, w') \<and> status_code resp = 200 \<longrightarrow>
        (\<exists>img. summary_png w' = Some img \<and> summary_top img = top5 (countries (database w'))))"
  (is "?listed \<and> ?read_back \<and> (?refreshed \<longrightarrow> ?drawn)")
proof -
  have "getCountries False (q\<lparr>q_sort := Some ''gdp_desc''\<rparr>) d
      = res_json (Countries (ORDER_BY estimated_gdp_DESC (filter (where_clause q) (countries d))))"
    by (simp add: getCountries_def orderBy_gdp_desc where_clause_sort)
  then have a: ?listed
    using mset_ORDER_BY [of estimated_gdp_DESC] estimated_gdp_DESC_nth by blast
  have b: ?read_back
    by (simp add: getCountries_def orderBy_gdp_desc where_clause_def condition_def top5_def
        res_json_def)
  have c: ?drawn if h: ?refreshed
  proof -
    obtain ex cs c' img
      where tr: "transaction cy ex cs (beginTransaction (database w)) = Inr (c', img)"
        and w': "w' = \<lparr>database = commit c', summary_png = Some img\<rparr>"
      using h refresh_cases [of cy w resp w'] by auto
    from transaction_result [OF tr] have "summary_top img = top5 (countries (commit c'))"
      by (auto simp: commit_def)
    then show ?thesis using w' by simp
  qed
  show ?thesis using a b c by blast
qed

lemmas read_defs = getCountries_def getCountryByName_def deleteCountry_def orderBy_def element_def
  where_clause_def condition_def lower_eq_def LOWER_def toLowerCase_char_def ORDER_BY_def
  estimated_gdp_DESC_def estimated_gdp_ASC_def name_ASC_def res_json_def sendError_def
  or_null_def stored_def top5_def

theorem gdp_desc_nulls_last_witness:
  "getCountries False \<lparr>q_region = None, q_currency = None, q_sort = Some ''gdp_desc''\<rparr>
     \<lparr>countries = [stored ''Alpha'' (Some 1), stored ''Gamma'' None, stored ''Beta'' (Some 2)],
      status = None\<rparr>
   = res_json (Countries [stored ''Beta'' (Some 2), stored ''Alpha'' (Some 1), stored ''Gamma'' None])
   \<and> top5 [stored ''Alpha'' (Some 1), stored ''Gamma'' None, stored ''Beta'' (Some 2)]
     = [(Some ''Beta'', Some 2), (Some ''Alpha'', Some 1), (Some ''Gamma'', None)]"
proof -
  let ?d = "\<lparr>countries = [stored ''Alpha'' (Some 1), stored ''Gamma'' None, stored ''Beta'' (Some 2)],
      status = None\<rparr>"
  have g: "getCountries False \<lparr>q_region = None, q_currency = None, q_sort = Some ''gdp_desc''\<rparr> ?d
     = res_json (Countries [stored ''Beta'' (Some 2), stored ''Alpha'' (Some 1), stored ''Gamma'' None])"
    by (simp add: read_defs)
  have "top5 (countries ?d)
     = map (\<lambda>r. (name r, estimated_gdp r))
         (take 5 [stored ''Beta'' (Some 2), stored ''Alpha'' (Some 1), stored ''Gamma'' None])"
    using gdp_desc_nulls_last [of "\<lparr>q_region = None, q_currency = None, q_sort = None\<rparr>" ?d] g
    by blast
  then have "top5 [stored ''Alpha'' (Some 1), stored ''Gamma'' None, stored ''Beta'' (Some 2)]
     = [(Some ''Beta'', Some 2), (Some ''Alpha'', Some 1), (Some ''Gamma'', None)]"
    by (simp add: stored_def)
  with g show ?thesis by simp
qed

section \<open>Properties of the sort parameter\<close>

lemma split_nonempty: "split sep s \<noteq> []"
  by (induction s) (auto split: list.splits)

lemma orderBy_fallback:
  assumes "take 2 (split CHR ''_'' s) \<noteq> [''gdp'', ''desc'']"
    and "take 2 (split CHR ''_'' s) \<noteq> [''gdp'', ''asc'']"
  shows "orderBy (Some s) = name_ASC_clause"
proof (cases "split CHR ''_'' s")
  case Nil
  then show ?thesis by (simp add: orderBy_def element_def)
next
  case (Cons a rest)
  show ?thesis
  proof (cases rest)
    case Nil
    then show ?thesis using Cons by (simp add: orderBy_def element_def)
  next
    case (Cons b rest')
    then show ?thesis using \<open>split CHR ''_'' s = a # rest\<close> assms
      by (auto simp: orderBy_def element_def)
  qed
qed

lemma orderBy_extra_segments:
  "orderBy (Some (''gdp_desc_'' @ x)) = estimated_gdp_DESC_clause"
  "orderBy (Some (''gdp_asc_'' @ x)) = estimated_gdp_ASC_clause"
  using split_nonempty [of "CHR ''_''" x]
  by (auto simp: orderBy_def element_def split: list.splits)

lemma getCountries_orderBy:
  "orderBy s = orderBy s' \<Longrightarrow>
     getCountries f (q\<lparr>q_sort := s\<rparr>) d = getCountries f (q\<lparr>q_sort := s'\<rparr>) d"
  by (simp add: getCountries_def where_clause_sort)

text \<open>
  C6, as amended. For every value of the \<^verbatim>\<open>sort\<close> parameter whose first two
  underscore-separated segments are neither \<^verbatim>\<open>gdp\<close>, \<^verbatim>\<open>desc\<close> nor
  \<^verbatim>\<open>gdp\<close>, \<^verbatim>\<open>asc\<close>, the result is in the default order, by name ascending, which
  is also the order without the parameter; a value with further segments after
  \<^verbatim>\<open>gdp_desc\<close> or \<^verbatim>\<open>gdp_asc\<close> is answered like \<^verbatim>\<open>gdp_desc\<close> or
  \<^verbatim>\<open>gdp_asc\<close>.
\<close>

theorem sort_fallback:
  "(take 2 (split CHR ''_'' s) \<noteq> [''gdp'', ''desc''] \<and> take 2 (split CHR ''_'' s) \<noteq> [''gdp'', ''asc'']
      \<longrightarrow> getCountries False (q\<lparr>q_sort := Some s\<rparr>) d
            = res_json (Countries (ORDER_BY name_ASC (filter (where_clause q) (countries d)))))
   \<and> getCountries False (q\<lparr>q_sort := None\<rparr>) d
       = res_json (Countries (ORDER_BY name_ASC (filter (where_clause q) (countries d))))
   \<and> getCountries False (q\<lparr>q_sort := Some (''gdp_desc_'' @ x)\<rparr>) d
       = getCountries False (q\<lparr>q_sort := Some ''gdp_desc''\<rparr>) d
   \<and> getCountries False (q\<lparr>q_sort := Some (''gdp_asc_'' @ x)\<rparr>) d
       = getCountries False (q\<lparr>q_sort := Some ''gdp_asc''\<rparr>) d"
  (is "?fallback \<and> ?default \<and> ?desc \<and> ?asc")
proof -
  have a: ?fallback
    using orderBy_fallback [of s] by (auto simp: getCountries_def where_clause_sort)
  have b: ?default
    by (simp add: getCountries_def where_clause_sort orderBy_def)
  have asc: "orderBy (Some ''gdp_asc'') = estimated_gdp_ASC_clause"
    by (simp add: orderBy_def element_def)
  have c: ?desc
    by (rule getCountries_orderBy) (simp only: orderBy_extra_segments orderBy_gdp_desc)
  have e: ?asc
    by (rule getCountries_orderBy) (simp only: orderBy_extra_segments asc)
  show ?thesis using a b c e by blast
qed

theorem sort_fallback_witness:
  "getCountries False \<lparr>q_region = None, q_currency = None, q_sort = Some ''population_desc''\<rparr>
     \<lparr>countries = [stored ''Beta'' (Some 2), stored ''alpha'' (Some 1)], status = None\<rparr>
   = res_json (Countries [stored ''alpha'' (Some 1), stored ''Beta'' (Some 2)])"
proof -
  have "take 2 (split CHR ''_'' ''population_desc'') \<noteq> [''gdp'', ''desc'']
      \<and> take 2 (split CHR ''_'' ''population_desc'') \<noteq> [''gdp'', ''asc'']"
    by simp
  then have "getCountries False
       (\<lparr>q_region = None, q_currency = None, q_sort = None\<rparr>\<lparr>q_sort := Some ''population_desc''\<rparr>)
       \<lparr>countries = [stored ''Beta'' (Some 2), stored ''alpha'' (Some 1)], status = None\<rparr>
     = res_json (Countries (ORDER_BY name_ASC
         (filter (where_clause \<lparr>q_region = None, q_currency = None, q_sort = None\<rparr>)
            (countries \<lparr>countries = [stored ''Beta'' (Some 2), stored ''alpha'' (Some 1)],
                        status = None\<rparr>))))"
    using sort_fallback [of "''population_desc''"
        "\<lparr>q_region = None, q_currency = None, q_sort = None\<rparr>"
        "\<lparr>countries = [stored ''Beta'' (Some 2), stored ''alpha'' (Some 1)], status = None\<rparr>"]
    by blast
  then show ?thesis by (simp add: read_defs)
qed

text \<open>
  C6 as stated fails at its own example: \<^verbatim>\<open>sort=gdp_desc_extra\<close> orders by GDP
  descending (Beta before Alpha), not by name.
\<close>

theorem sort_extra_segment_counterexample:
  "getCountries False \<lparr>q_region = None, q_currency = None, q_sort = Some ''gdp_desc_extra''\<rparr>
     \<lparr>countries = [stored ''Alpha'' (Some 1), stored ''Beta'' (Some 2)], status = None\<rparr>
   = res_json (Countries [stored ''Beta'' (Some 2), stored ''Alpha'' (Some 1)])
   \<and> getCountries False \<lparr>q_region = None, q_currency = None, q_sort = None\<rparr>
     \<lparr>countries = [stored ''Alpha'' (Some 1), stored ''Beta'' (Some 2)], status = None\<rparr>
   = res_json (Countries [stored ''Alpha'' (Some 1), stored ''Beta'' (Some 2)])"
  by (simp add: read_defs)

section \<open>Properties of the name key\<close>

text \<open>
  The unique key holds of the empty table and is kept by every upsert, every refresh and
  every delete.
\<close>

lemma duplicate_key_iff:
  "name v = Some n \<Longrightarrow>
     duplicate_key v r \<longleftrightarrow> map_option LOWER (name r) = map_option LOWER (name v)"
  by (auto simp: duplicate_key_def lower_eq_def split: option.splits)

lemma keys_upsert:
  assumes "name v = Some n"
  shows "map (\<lambda>r. map_option LOWER (name r)) (upsert v t) =
     (if map_option LOWER (name v) \<in> set (map (\<lambda>r. map_option LOWER (name r)) t)
      then map (\<lambda>r. map_option LOWER (name r)) t
      else map (\<lambda>r. map_option LOWER (name r)) t @ [map_option LOWER (name v)])"
proof (induction t)
  case Nil
  then show ?case by simp
next
  case (Cons r t)
  show ?case
  proof (cases "duplicate_key v r")
    case True
    then show ?thesis using duplicate_key_iff [OF assms, of r] by simp
  next
    case False
    then show ?thesis using duplicate_key_iff [OF assms, of r] Cons by auto
  qed
qed

lemma names_upsert:
  "name v \<noteq> None \<Longrightarrow> list_all (\<lambda>r. name r \<noteq> None) t \<Longrightarrow>
     list_all (\<lambda>r. name r \<noteq> None) (upsert v t)"
  by (induction t) auto

lemma unique_names_upsert:
  assumes "unique_names t" "name v = Some n"
  shows "unique_names (upsert v t)"
  using assms names_upsert [of v t] keys_upsert [OF assms(2), of t]
  by (auto simp: unique_names_def)

lemma unique_names_upsert_each:
  "upsert_each cy ex k n cs t = Inr (t', m) \<Longrightarrow> unique_names t \<Longrightarrow> unique_names t'"
proof (induction cs arbitrary: k n t)
  case Nil
  then show ?case by simp
next
  case (Cons c cs)
  from Cons.prems(1) obtain v k' x where x: "name v = Some x"
    and rest: "upsert_each cy ex k' (Suc n) cs (upsert v t) = Inr (t', m)"
    by (rule upsert_each_step)
  show ?case using Cons.IH [OF rest] unique_names_upsert [OF Cons.prems(2) x] by simp
qed

lemma unique_names_initial: "unique_names (countries initial_db)"
  by (simp add: unique_names_def initial_db_def)

lemma unique_names_refresh:
  assumes "refreshCountries cy w = (resp, w')" "unique_names (countries (database w))"
  shows "unique_names (countries (database w'))"
proof (cases "database w' = database w")
  case True
  then show ?thesis using assms(2) by simp
next
  case False
  then obtain ex cs c' img
    where tr: "transaction cy ex cs (beginTransaction (database w)) = Inr (c', img)"
      and w': "w' = \<lparr>database = commit c', summary_png = Some img\<rparr>"
    using refresh_cases [OF assms(1)] by auto
  from transaction_result [OF tr] obtain t
    where u: "upsert_each cy ex 0 0 cs (countries (database w)) = Inr (t, length cs)"
      and t: "countries (commit c') = t"
    by (auto simp: beginTransaction_def commit_def)
  from unique_names_upsert_each [OF u assms(2)] w' t show ?thesis by simp
qed

lemma unique_names_delete:
  assumes "unique_names (countries d)"
  shows "unique_names (countries (snd (deleteCountry f n d)))"
proof -
  have "unique_names (filter P t)" if "unique_names t" for P and t :: "country_row list"
    using that by (auto simp: unique_names_def list_all_iff distinct_map_filter)
  then show ?thesis using assms by (simp add: deleteCountry_def Let_def)
qed






end
